theory Spec2Isabelle
  imports Complex_Main "HOL-Library.Char_ord" "HOL-Library.List_Lexorder"
begin

section \<open>Data model\<close>

text \<open>
  Python floats are modelled as exact reals, Python ints as \<open>int\<close>.  A float division
  by zero raises \<open>ZeroDivisionError\<close> in Python; it is the only exception the canvas
  code can raise, and it is a value of the model.
\<close>

datatype error = ZeroDivisionError

type_synonym point = "real \<times> real"

subsection \<open>core/bbox_model.py: BoundingBox\<close>

record BoundingBox =
  class_id :: int
  x1 :: real
  y1 :: real
  x2 :: real
  y2 :: real
  confidence :: "real option"

definition width :: "BoundingBox \<Rightarrow> real" where
  "width b = x2 b - x1 b"

definition height :: "BoundingBox \<Rightarrow> real" where
  "height b = y2 b - y1 b"

subsection \<open>The parts of Qt's QRectF that the canvas uses\<close>

text \<open>
  A QRectF stores its top-left corner and a signed width and height.  The operations
  below follow Qt's definitions: the two-point constructor, \<open>setBottomRight\<close>,
  \<open>normalized\<close> (a negative extent is flipped), the four edge getters and
  \<open>contains\<close> (which normalizes and answers False for a rectangle of zero width or
  zero height).
\<close>

record QRectF =
  rect_x :: real
  rect_y :: real
  rect_w :: real
  rect_h :: real

definition QRectF_points :: "point \<Rightarrow> point \<Rightarrow> QRectF" where
  "QRectF_points a c =
     \<lparr>rect_x = fst a, rect_y = snd a, rect_w = fst c - fst a, rect_h = snd c - snd a\<rparr>"

definition QRectF_xywh :: "real \<Rightarrow> real \<Rightarrow> real \<Rightarrow> real \<Rightarrow> QRectF" where
  "QRectF_xywh x y w h = \<lparr>rect_x = x, rect_y = y, rect_w = w, rect_h = h\<rparr>"

definition QRectF_setBottomRight :: "point \<Rightarrow> QRectF \<Rightarrow> QRectF" where
  "QRectF_setBottomRight p r = r\<lparr>rect_w := fst p - rect_x r, rect_h := snd p - rect_y r\<rparr>"

definition QRectF_normalized :: "QRectF \<Rightarrow> QRectF" where
  "QRectF_normalized r =
     (let r1 = (if rect_w r < 0 then r\<lparr>rect_x := rect_x r + rect_w r, rect_w := - rect_w r\<rparr>
                else r)
      in (if rect_h r1 < 0 then r1\<lparr>rect_y := rect_y r1 + rect_h r1, rect_h := - rect_h r1\<rparr>
          else r1))"

definition QRectF_left :: "QRectF \<Rightarrow> real" where
  "QRectF_left r = rect_x r"

definition QRectF_top :: "QRectF \<Rightarrow> real" where
  "QRectF_top r = rect_y r"

definition QRectF_right :: "QRectF \<Rightarrow> real" where
  "QRectF_right r = rect_x r + rect_w r"

definition QRectF_bottom :: "QRectF \<Rightarrow> real" where
  "QRectF_bottom r = rect_y r + rect_h r"

definition QRectF_contains :: "QRectF \<Rightarrow> point \<Rightarrow> bool" where
  "QRectF_contains r p =
     (let l = (if rect_w r < 0 then rect_x r + rect_w r else rect_x r);
          rr = (if rect_w r < 0 then rect_x r else rect_x r + rect_w r);
          t = (if rect_h r < 0 then rect_y r + rect_h r else rect_y r);
          b = (if rect_h r < 0 then rect_y r else rect_y r + rect_h r)
      in if l = rr then False
         else if fst p < l \<or> fst p > rr then False
         else if t = b then False
         else if snd p < t \<or> snd p > b then False
         else True)"

subsection \<open>Input events\<close>

datatype MouseButton = LeftButton | MiddleButton | RightButton | OtherButton

text \<open>
  \<open>ev_position\<close> is \<open>event.position()\<close> (a QPointF), \<open>ev_pos\<close> is \<open>event.pos()\<close>
  (the integer QPoint Qt reports for the same event).
\<close>

record QMouseEvent =
  ev_button :: MouseButton
  ev_position :: point
  ev_pos :: "int \<times> int"

record QWheelEvent =
  angleDelta_y :: int
  wheel_position :: point

datatype Key = Key_Delete | Key_Other

subsection \<open>ui/canvas_widget.py: CanvasMode and the widget state\<close>

datatype CanvasMode = NAVIGATE | MARK | SELECT

datatype CursorShape = ArrowCursor | SizeAllCursor

text \<open>
  BoundingBox objects are mutable and shared by reference between \<open>_boxes\<close> and
  \<open>_selected_box\<close>, so the state carries an object store: \<open>heap\<close> maps an object
  reference to the box stored there, \<open>boxes\<close> and \<open>selected_box\<close> hold references,
  and \<open>next_ref\<close> is the next unused reference.  \<open>boxes_changed\<close> counts the
  emissions of the signal of the same name.  Repaint requests (\<open>update()\<close>) have no
  effect on this state and are left out.
\<close>

type_synonym ref = nat

record CanvasWidget =
  pixmap :: "string option"
  scale :: real
  offset :: point
  boxes :: "ref list"
  selected_box :: "ref option"
  mode :: CanvasMode
  new_box_class :: int
  dragging :: bool
  drag_start :: point
  current_rect :: "QRectF option"
  panning :: bool
  pan_start :: "int \<times> int"
  resizing :: bool
  resize_handle :: "string option"
  handle_size :: int
  cursor :: CursorShape
  heap :: "ref \<Rightarrow> BoundingBox"
  next_ref :: ref
  boxes_changed :: nat

text \<open>\<open>CanvasWidget.__init__\<close>.  No box object exists yet; the store is blank.\<close>

definition blank_box :: BoundingBox where
  "blank_box = \<lparr>class_id = 0, x1 = 0, y1 = 0, x2 = 0, y2 = 0, confidence = None\<rparr>"

definition CanvasWidget_init :: CanvasWidget where
  "CanvasWidget_init =
     \<lparr>pixmap = None, scale = 1, offset = (0, 0), boxes = [], selected_box = None,
      mode = NAVIGATE, new_box_class = 0,
      dragging = False, drag_start = (0, 0), current_rect = None,
      panning = False, pan_start = (0, 0),
      resizing = False, resize_handle = None, handle_size = 8,
      cursor = ArrowCursor,
      heap = (\<lambda>_. blank_box), next_ref = 0, boxes_changed = 0\<rparr>"

section \<open>ui/canvas_widget.py: the operations\<close>

definition set_mode :: "CanvasMode \<Rightarrow> CanvasWidget \<Rightarrow> CanvasWidget" where
  "set_mode m s = s\<lparr>mode := m, cursor := ArrowCursor\<rparr>"

definition load_image :: "string \<Rightarrow> CanvasWidget \<Rightarrow> CanvasWidget" where
  "load_image path s = s\<lparr>pixmap := Some path, scale := 1, offset := (0, 0)\<rparr>"

definition to_image_coords :: "CanvasWidget \<Rightarrow> point \<Rightarrow> error + point" where
  "to_image_coords s p =
     (if scale s = 0 then Inl ZeroDivisionError
      else Inr ((fst p - fst (offset s)) / scale s, (snd p - snd (offset s)) / scale s))"

text \<open>
  The inverse direction is not a method of the widget: it is the painter transform that
  \<open>paintEvent\<close> sets up before drawing the pixmap and the boxes
  (\<open>painter.translate(self._offset); painter.scale(self._scale, self._scale)\<close>), which
  sends the image point \<open>q\<close> to the widget point \<open>q * scale + offset\<close>.
\<close>

definition to_widget_coords :: "CanvasWidget \<Rightarrow> point \<Rightarrow> point" where
  "to_widget_coords s q = (fst q * scale s + fst (offset s), snd q * scale s + snd (offset s))"

definition get_handle_at :: "CanvasWidget \<Rightarrow> point \<Rightarrow> BoundingBox \<Rightarrow> error + string option" where
  "get_handle_at s p box =
     (if scale s = 0 then Inl ZeroDivisionError
      else
        let threshold = real_of_int (handle_size s) / scale s; x = fst p; y = snd p in
        Inr (if \<bar>x - x1 box\<bar> < threshold \<and> \<bar>y - y1 box\<bar> < threshold then Some ''tl''
             else if \<bar>x - x2 box\<bar> < threshold \<and> \<bar>y - y1 box\<bar> < threshold then Some ''tr''
             else if \<bar>x - x1 box\<bar> < threshold \<and> \<bar>y - y2 box\<bar> < threshold then Some ''bl''
             else if \<bar>x - x2 box\<bar> < threshold \<and> \<bar>y - y2 box\<bar> < threshold then Some ''br''
             else if \<bar>x - x1 box\<bar> < threshold \<and> y1 box \<le> y \<and> y \<le> y2 box then Some ''l''
             else if \<bar>x - x2 box\<bar> < threshold \<and> y1 box \<le> y \<and> y \<le> y2 box then Some ''r''
             else if \<bar>y - y1 box\<bar> < threshold \<and> x1 box \<le> x \<and> x \<le> x2 box then Some ''t''
             else if \<bar>y - y2 box\<bar> < threshold \<and> x1 box \<le> x \<and> x \<le> x2 box then Some ''b''
             else None))"

definition resize_box :: "BoundingBox \<Rightarrow> string \<Rightarrow> point \<Rightarrow> BoundingBox" where
  "resize_box box handle new_pos =
     (if handle = ''tl'' then box\<lparr>x1 := fst new_pos, y1 := snd new_pos\<rparr>
      else if handle = ''tr'' then box\<lparr>x2 := fst new_pos, y1 := snd new_pos\<rparr>
      else if handle = ''bl'' then box\<lparr>x1 := fst new_pos, y2 := snd new_pos\<rparr>
      else if handle = ''br'' then box\<lparr>x2 := fst new_pos, y2 := snd new_pos\<rparr>
      else if handle = ''l'' then box\<lparr>x1 := fst new_pos\<rparr>
      else if handle = ''r'' then box\<lparr>x2 := fst new_pos\<rparr>
      else if handle = ''t'' then box\<lparr>y1 := snd new_pos\<rparr>
      else if handle = ''b'' then box\<lparr>y2 := snd new_pos\<rparr>
      else box)"

text \<open>Python truthiness of an \<open>Optional[str]\<close>: None and the empty string are false.\<close>

definition truthy :: "string option \<Rightarrow> bool" where
  "truthy h = (case h of None \<Rightarrow> False | Some str \<Rightarrow> str \<noteq> [])"

text \<open>
  The selection loop of \<open>mousePressEvent\<close>
  (\<open>for box in self._boxes: rect = QRectF(box.x1, box.y1, box.width(), box.height());
  if rect.contains(pos): ... break\<close>): the reference of the first box whose rectangle
  contains the point, None when the loop runs to its end.
\<close>

definition box_rect :: "BoundingBox \<Rightarrow> QRectF" where
  "box_rect box = QRectF_xywh (x1 box) (y1 box) (width box) (height box)"

fun first_box_at :: "(ref \<Rightarrow> BoundingBox) \<Rightarrow> point \<Rightarrow> ref list \<Rightarrow> ref option" where
  "first_box_at hp p [] = None"
| "first_box_at hp p (r # rs) =
     (if QRectF_contains (box_rect (hp r)) p then Some r else first_box_at hp p rs)"

definition mousePressEvent :: "QMouseEvent \<Rightarrow> CanvasWidget \<Rightarrow> error + CanvasWidget" where
  "mousePressEvent e s =
     (case mode s of
        NAVIGATE \<Rightarrow>
          (if ev_button e = MiddleButton \<or> ev_button e = LeftButton
           then Inr (s\<lparr>panning := True, pan_start := ev_pos e\<rparr>)
           else Inr s)
      | MARK \<Rightarrow>
          (if ev_button e = LeftButton then
             (case to_image_coords s (ev_position e) of
                Inl err \<Rightarrow> Inl err
              | Inr p \<Rightarrow>
                  Inr (s\<lparr>dragging := True, drag_start := p,
                         current_rect := Some (QRectF_points p p)\<rparr>))
           else Inr s)
      | SELECT \<Rightarrow>
          (if ev_button e = LeftButton then
             (case to_image_coords s (ev_position e) of
                Inl err \<Rightarrow> Inl err
              | Inr p \<Rightarrow>
                  (case (case selected_box s of
                           None \<Rightarrow> Inr None
                         | Some sel \<Rightarrow> get_handle_at s p (heap s sel)) of
                     Inl err \<Rightarrow> Inl err
                   | Inr handle \<Rightarrow>
                       (if truthy handle
                        then Inr (s\<lparr>resizing := True, resize_handle := handle\<rparr>)
                        else
                          (case first_box_at (heap s) p (boxes s) of
                             None \<Rightarrow>
                               Inr (s\<lparr>selected_box := None,
                                      boxes_changed := Suc (boxes_changed s)\<rparr>)
                           | Some r \<Rightarrow>
                               Inr (s\<lparr>selected_box := Some r, dragging := True,
                                      drag_start := p,
                                      boxes_changed := Suc (boxes_changed s)\<rparr>)))))
           else if ev_button e = MiddleButton
           then Inr (s\<lparr>panning := True, pan_start := ev_pos e\<rparr>)
           else Inr s))"

text \<open>The pan step shared by the NAVIGATE and SELECT branches of \<open>mouseMoveEvent\<close>.\<close>

definition pan_move :: "QMouseEvent \<Rightarrow> CanvasWidget \<Rightarrow> CanvasWidget" where
  "pan_move e s =
     (let dx = fst (ev_pos e) - fst (pan_start s); dy = snd (ev_pos e) - snd (pan_start s)
      in s\<lparr>offset := (fst (offset s) + real_of_int dx, snd (offset s) + real_of_int dy),
            pan_start := ev_pos e\<rparr>)"

definition mouseMoveEvent :: "QMouseEvent \<Rightarrow> CanvasWidget \<Rightarrow> error + CanvasWidget" where
  "mouseMoveEvent e s =
     (case mode s of
        NAVIGATE \<Rightarrow> (if panning s then Inr (pan_move e s) else Inr s)
      | MARK \<Rightarrow>
          (case current_rect s of
             None \<Rightarrow> Inr s
           | Some r \<Rightarrow>
               (if dragging s then
                  (case to_image_coords s (ev_position e) of
                     Inl err \<Rightarrow> Inl err
                   | Inr p \<Rightarrow> Inr (s\<lparr>current_rect := Some (QRectF_setBottomRight p r)\<rparr>))
                else Inr s))
      | SELECT \<Rightarrow>
          (if resizing s \<and> selected_box s \<noteq> None \<and> truthy (resize_handle s) then
             (case to_image_coords s (ev_position e) of
                Inl err \<Rightarrow> Inl err
              | Inr p \<Rightarrow>
                  (let sel = the (selected_box s); handle = the (resize_handle s) in
                   Inr (s\<lparr>heap := (heap s)(sel := resize_box (heap s sel) handle p),
                          boxes_changed := Suc (boxes_changed s)\<rparr>)))
           else if dragging s \<and> selected_box s \<noteq> None then
             (case to_image_coords s (ev_position e) of
                Inl err \<Rightarrow> Inl err
              | Inr p \<Rightarrow>
                  (let sel = the (selected_box s);
                       dx = fst p - fst (drag_start s); dy = snd p - snd (drag_start s);
                       box = heap s sel
                   in Inr (s\<lparr>heap := (heap s)(sel := box\<lparr>x1 := x1 box + dx, y1 := y1 box + dy,
                                                           x2 := x2 box + dx, y2 := y2 box + dy\<rparr>),
                             drag_start := p,
                             boxes_changed := Suc (boxes_changed s)\<rparr>)))
           else if panning s then Inr (pan_move e s)
           else
             (case to_image_coords s (ev_position e) of
                Inl err \<Rightarrow> Inl err
              | Inr p \<Rightarrow>
                  (case selected_box s of
                     None \<Rightarrow> Inr (s\<lparr>cursor := ArrowCursor\<rparr>)
                   | Some sel \<Rightarrow>
                       (case get_handle_at s p (heap s sel) of
                          Inl err \<Rightarrow> Inl err
                        | Inr handle \<Rightarrow>
                            (if truthy handle then Inr (s\<lparr>cursor := SizeAllCursor\<rparr>)
                             else Inr (s\<lparr>cursor := ArrowCursor\<rparr>)))))))"

text \<open>
  \<open>mouseReleaseEvent\<close>.  The committed box is a new object, appended to \<open>_boxes\<close>:
  \<open>BoundingBox(0, rect.left(), rect.top(), rect.right(), rect.bottom())\<close>.
\<close>

definition commit_rect :: "CanvasWidget \<Rightarrow> CanvasWidget" where
  "commit_rect s =
     (case current_rect s of
        None \<Rightarrow> s
      | Some r \<Rightarrow>
          (let rect = QRectF_normalized r;
               box = \<lparr>class_id = 0, x1 = QRectF_left rect, y1 = QRectF_top rect,
                      x2 = QRectF_right rect, y2 = QRectF_bottom rect, confidence = None\<rparr>
           in s\<lparr>boxes := boxes s @ [next_ref s],
                 heap := (heap s)(next_ref s := box),
                 next_ref := Suc (next_ref s),
                 current_rect := None\<rparr>))"

definition mouseReleaseEvent :: "QMouseEvent \<Rightarrow> CanvasWidget \<Rightarrow> CanvasWidget" where
  "mouseReleaseEvent e s =
     (if ev_button e = LeftButton then
        (let s1 = (if mode s = MARK \<and> dragging s then commit_rect (s\<lparr>dragging := False\<rparr>)
                   else if mode s = SELECT
                   then s\<lparr>dragging := False, resizing := False, resize_handle := None\<rparr>
                   else s)
         in if panning s1 then s1\<lparr>panning := False\<rparr> else s1)
      else if ev_button e = MiddleButton then
        (if panning s then s\<lparr>panning := False\<rparr> else s)
      else s)"

definition wheelEvent :: "QWheelEvent \<Rightarrow> CanvasWidget \<Rightarrow> error + CanvasWidget" where
  "wheelEvent e s =
     (if mode s = NAVIGATE \<or> mode s = SELECT then
        (let delta = angleDelta_y e;
             factor = 1 + real_of_int delta / 1200
         in case to_image_coords s (wheel_position e) of
              Inl err \<Rightarrow> Inl err
            | Inr old_pos \<Rightarrow>
                (let s1 = s\<lparr>scale := scale s * factor\<rparr>;
                     s2 = s1\<lparr>scale := max (1 / 10) (min (scale s1) 10)\<rparr>
                 in case to_image_coords s2 (wheel_position e) of
                      Inl err \<Rightarrow> Inl err
                    | Inr new_pos \<Rightarrow>
                        Inr (s2\<lparr>offset :=
                                  (fst (offset s2) + (fst new_pos - fst old_pos) * scale s2,
                                   snd (offset s2) + (snd new_pos - snd old_pos) * scale s2)\<rparr>)))
      else Inr s)"

text \<open>
  \<open>keyPressEvent\<close>.  Python's \<open>x in xs\<close> and \<open>xs.remove(x)\<close> compare by identity or
  by the dataclass's field-wise \<open>==\<close>; \<open>remove\<close> deletes the first such element.
\<close>

definition py_in :: "(ref \<Rightarrow> BoundingBox) \<Rightarrow> ref \<Rightarrow> ref list \<Rightarrow> bool" where
  "py_in hp x rs = list_ex (\<lambda>r. r = x \<or> hp r = hp x) rs"

fun py_remove :: "(ref \<Rightarrow> BoundingBox) \<Rightarrow> ref \<Rightarrow> ref list \<Rightarrow> ref list" where
  "py_remove hp x [] = []"
| "py_remove hp x (r # rs) = (if r = x \<or> hp r = hp x then rs else r # py_remove hp x rs)"

definition keyPressEvent :: "Key \<Rightarrow> CanvasWidget \<Rightarrow> CanvasWidget" where
  "keyPressEvent k s =
     (case selected_box s of
        None \<Rightarrow> s
      | Some sel \<Rightarrow>
          (if k = Key_Delete then
             (let s1 = (if py_in (heap s) sel (boxes s)
                        then s\<lparr>boxes := py_remove (heap s) sel (boxes s)\<rparr> else s)
              in s1\<lparr>selected_box := None, boxes_changed := Suc (boxes_changed s1)\<rparr>)
           else s))"

section \<open>The host and event sequences\<close>

text \<open>
  modes/edit_mode.py reaches into the widget directly: it assigns \<open>_pixmap\<close>,
  \<open>_boxes\<close>, \<open>_selected_box\<close> and \<open>new_box_class\<close>, creates BoundingBox objects,
  writes \<open>class_id\<close> of the selected box and emits \<open>boxes_changed\<close> itself.
  \<open>host_write t\<close> covers all of these at once: the fields the host writes take
  arbitrary new values (those of \<open>t\<close>), every other field is kept.
\<close>

definition host_write :: "CanvasWidget \<Rightarrow> CanvasWidget \<Rightarrow> CanvasWidget" where
  "host_write t s =
     s\<lparr>pixmap := pixmap t, boxes := boxes t, selected_box := selected_box t,
       new_box_class := new_box_class t, heap := heap t, next_ref := next_ref t,
       boxes_changed := boxes_changed t\<rparr>"

datatype event =
    SetMode CanvasMode
  | LoadImage string
  | MousePress QMouseEvent
  | MouseMove QMouseEvent
  | MouseRelease QMouseEvent
  | Wheel QWheelEvent
  | KeyPress Key
  | HostWrite CanvasWidget

fun step :: "event \<Rightarrow> CanvasWidget \<Rightarrow> error + CanvasWidget" where
  "step (SetMode m) s = Inr (set_mode m s)"
| "step (LoadImage path) s = Inr (load_image path s)"
| "step (MousePress e) s = mousePressEvent e s"
| "step (MouseMove e) s = mouseMoveEvent e s"
| "step (MouseRelease e) s = Inr (mouseReleaseEvent e s)"
| "step (Wheel e) s = wheelEvent e s"
| "step (KeyPress k) s = Inr (keyPressEvent k s)"
| "step (HostWrite t) s = Inr (host_write t s)"

text \<open>A sequence of events, handled one after the other; an exception ends the run.\<close>

fun exec :: "event list \<Rightarrow> CanvasWidget \<Rightarrow> error + CanvasWidget" where
  "exec [] s = Inr s"
| "exec (ev # evs) s = (case step ev s of Inl err \<Rightarrow> Inl err | Inr s' \<Rightarrow> exec evs s')"

text \<open>
  A mouse event with the primary button at a whole-pixel widget position, where
  \<open>event.position()\<close> and \<open>event.pos()\<close> name the same point.
\<close>

definition left_at :: "int \<Rightarrow> int \<Rightarrow> QMouseEvent" where
  "left_at x y =
     \<lparr>ev_button = LeftButton, ev_position = (real_of_int x, real_of_int y), ev_pos = (x, y)\<rparr>"

section \<open>modes/auto\_label\_mode.py: the batch worker\<close>

text \<open>
  \<open>_AutoLabelWorker.run\<close> talks to the file system, the detector and the UI.  Its
  model returns the sequence of these effects.  The environment supplies what the
  outside world answers: the files a glob pattern matches in \<open>image_dir\<close>, whether
  \<open>load_model\<close> and the import of PIL raise (with the text of the exception and
  traceback), and whether the body of the per-image \<open>try\<close> raises for an image.
  \<open>float_pct env i total\<close> is the value of \<open>int((i / total) * 95)\<close> as Python
  computes it in double precision, which can fall one short of the exact quotient.
\<close>

datatype notification = Progress_updated int | Finished | Error string

datatype action = Emit notification | Load_model | Process_image string | Log_warning string

record worker_env =
  glob :: "string \<Rightarrow> string list"
  load_model_raises :: "string option"
  pil_import_raises :: "string option"
  image_raises :: "string \<Rightarrow> bool"
  float_pct :: "nat \<Rightarrow> nat \<Rightarrow> int"

fun process_images :: "worker_env \<Rightarrow> nat \<Rightarrow> nat \<Rightarrow> string list \<Rightarrow> action list" where
  "process_images env n_total i [] = []"
| "process_images env n_total i (img_path # rest) =
     Process_image img_path #
     (if image_raises env img_path then [Log_warning img_path]
      else [Emit (Progress_updated (5 + float_pct env i n_total))]) @
     process_images env n_total (Suc i) rest"

definition run :: "worker_env \<Rightarrow> action list" where
  "run env =
     (let images = sort (glob env ''*.jpg'') @ sort (glob env ''*.png'') @
                   sort (glob env ''*.jpeg'');
          n_total = length images
      in if n_total = 0 then [Emit (Error ''No images found in the selected folder.'')]
         else
           Emit (Progress_updated 0) # Load_model #
           (case load_model_raises env of
              Some msg \<Rightarrow> [Emit (Error (''Auto-labeling failed: '' @ msg))]
            | None \<Rightarrow>
                Emit (Progress_updated 5) #
                (case pil_import_raises env of
                   Some msg \<Rightarrow> [Emit (Error (''Auto-labeling failed: '' @ msg))]
                 | None \<Rightarrow>
                     process_images env n_total 1 images @
                     [Emit (Progress_updated 100), Emit Finished])))"

section \<open>Example states\<close>

text \<open>
  The widget in Mark mode in the middle of a draw, at scale 1 and offset (0,0): the
  primary button went down at \<open>(ax, ay)\<close> and the pointer has moved to \<open>(cx, cy)\<close>.
\<close>

definition drawing_state :: "real \<Rightarrow> real \<Rightarrow> real \<Rightarrow> real \<Rightarrow> CanvasWidget" where
  "drawing_state ax ay cx cy =
     CanvasWidget_init\<lparr>mode := MARK, dragging := True, drag_start := (ax, ay),
       current_rect := Some \<lparr>rect_x = ax, rect_y = ay, rect_w = cx - ax, rect_h = cy - ay\<rparr>\<rparr>"


section \<open>Verification\<close>

lemmas qrect_defs = QRectF_points_def QRectF_xywh_def QRectF_setBottomRight_def
  QRectF_normalized_def QRectF_left_def QRectF_top_def QRectF_right_def QRectF_bottom_def
  QRectF_contains_def box_rect_def width_def height_def

lemmas handler_defs = set_mode_def load_image_def to_image_coords_def mousePressEvent_def
  mouseMoveEvent_def mouseReleaseEvent_def commit_rect_def wheelEvent_def keyPressEvent_def
  host_write_def pan_move_def left_at_def

subsection \<open>C1: the class of a box committed in Mark mode\<close>

text \<open>
  C1.  The claim: a completed Mark-mode draw commits the normalized dragged rectangle
  with the currently selected class, \<open>new_box_class\<close>.  The code normalizes the
  rectangle, but builds the box with the literal class 0.  With the host having set
  \<open>new_box_class\<close> to 3, the drag from (10,10) to (50,40) and the drag from (50,40)
  back to (10,10) both commit the box (10,10,50,40) with \<open>class_id = 0\<close>, while
  \<open>new_box_class\<close> is still 3.
\<close>

theorem mark_commit_ignores_new_box_class:
  "exec [HostWrite (CanvasWidget_init\<lparr>new_box_class := 3\<rparr>), SetMode MARK,
         MousePress (left_at 10 10), MouseMove (left_at 50 40), MouseRelease (left_at 50 40)]
        CanvasWidget_init =
   Inr (CanvasWidget_init\<lparr>mode := MARK, new_box_class := 3, drag_start := (10, 10),
          boxes := [0],
          heap := (heap CanvasWidget_init)
                    (0 := \<lparr>class_id = 0, x1 = 10, y1 = 10, x2 = 50, y2 = 40,
                            confidence = None\<rparr>),
          next_ref := 1\<rparr>) \<and>
   exec [HostWrite (CanvasWidget_init\<lparr>new_box_class := 3\<rparr>), SetMode MARK,
         MousePress (left_at 50 40), MouseMove (left_at 10 10), MouseRelease (left_at 10 10)]
        CanvasWidget_init =
   Inr (CanvasWidget_init\<lparr>mode := MARK, new_box_class := 3, drag_start := (50, 40),
          boxes := [0],
          heap := (heap CanvasWidget_init)
                    (0 := \<lparr>class_id = 0, x1 = 10, y1 = 10, x2 = 50, y2 = 40,
                            confidence = None\<rparr>),
          next_ref := 1\<rparr>)"
  by (simp add: handler_defs qrect_defs CanvasWidget_init_def Let_def)

subsection \<open>C2: zoom anchoring\<close>

text \<open>
  C2.  For every wheel event (any angle delta, hence any factor, clamped or not) handled
  in a state whose scale is not zero, the handler returns, and the image point under the
  event position is the same after the handler as before it.
\<close>

theorem wheelEvent_keeps_point_under_pivot:
  "scale s \<noteq> 0 \<Longrightarrow>
     \<exists>s'. wheelEvent e s = Inr s' \<and>
          to_image_coords s' (wheel_position e) = to_image_coords s (wheel_position e)"
  by (simp add: wheelEvent_def to_image_coords_def Let_def max_def min_def field_simps)

text \<open>
  At scale 1 and offset (5,7), a wheel event of angle delta 120000 at (100,50) asks for
  scale 101, which is clamped to 10; the point under the pivot stays (95,43).
\<close>

theorem wheelEvent_keeps_point_under_pivot_witness:
  "scale (CanvasWidget_init\<lparr>offset := (5, 7)\<rparr>) \<noteq> 0 \<and>
   (\<exists>s'. wheelEvent \<lparr>angleDelta_y = 120000, wheel_position = (100, 50)\<rparr>
            (CanvasWidget_init\<lparr>offset := (5, 7)\<rparr>) = Inr s' \<and>
         scale s' = 10 \<and>
         to_image_coords s' (100, 50) = Inr (95, 43))"
proof -
  let ?s = "CanvasWidget_init\<lparr>offset := (5, 7)\<rparr>"
  let ?e = "\<lparr>angleDelta_y = 120000, wheel_position = (100, 50)\<rparr>"
  have nz: "scale ?s \<noteq> 0"
    by (simp add: CanvasWidget_init_def)
  from wheelEvent_keeps_point_under_pivot [OF nz, of ?e]
  obtain s' where run: "wheelEvent ?e ?s = Inr s'"
    and same: "to_image_coords s' (100, 50) = to_image_coords ?s (100, 50)"
    by auto
  have before: "to_image_coords ?s (100, 50) = Inr (95, 43)"
    by (simp add: to_image_coords_def CanvasWidget_init_def)
  have "scale s' = 10"
    using run by (auto simp: wheelEvent_def to_image_coords_def CanvasWidget_init_def Let_def)
  with nz run same before show ?thesis
    by simp
qed

subsection \<open>C3: the scale stays in [0.1, 10]\<close>

lemma mousePressEvent_scale:
  "scale s \<noteq> 0 \<Longrightarrow> \<exists>s'. mousePressEvent e s = Inr s' \<and> scale s' = scale s"
  by (auto simp: mousePressEvent_def to_image_coords_def get_handle_at_def Let_def
      split: CanvasMode.splits option.splits sum.splits)

lemma mouseMoveEvent_scale:
  "scale s \<noteq> 0 \<Longrightarrow> \<exists>s'. mouseMoveEvent e s = Inr s' \<and> scale s' = scale s"
  by (auto simp: mouseMoveEvent_def to_image_coords_def get_handle_at_def pan_move_def Let_def
      split: CanvasMode.splits option.splits sum.splits)

lemma mouseReleaseEvent_scale: "scale (mouseReleaseEvent e s) = scale s"
  by (simp add: mouseReleaseEvent_def commit_rect_def Let_def split: option.splits)

lemma keyPressEvent_scale: "scale (keyPressEvent k s) = scale s"
  by (simp add: keyPressEvent_def Let_def split: option.splits)

lemma wheelEvent_scale:
  "1 / 10 \<le> scale s \<Longrightarrow> scale s \<le> 10 \<Longrightarrow>
     \<exists>s'. wheelEvent e s = Inr s' \<and> 1 / 10 \<le> scale s' \<and> scale s' \<le> 10"
  by (auto simp: wheelEvent_def to_image_coords_def Let_def max_def min_def)

lemma step_scale:
  assumes lo: "1 / 10 \<le> scale s" and hi: "scale s \<le> 10"
  shows "\<exists>s'. step ev s = Inr s' \<and> 1 / 10 \<le> scale s' \<and> scale s' \<le> 10"
proof (cases ev)
  case (MousePress e)
  with lo hi mousePressEvent_scale [of s e] show ?thesis by auto
next
  case (MouseMove e)
  with lo hi mouseMoveEvent_scale [of s e] show ?thesis by auto
next
  case (Wheel e)
  with wheelEvent_scale [OF lo hi, of e] show ?thesis by simp
next
  case (MouseRelease e)
  with lo hi show ?thesis by (simp add: mouseReleaseEvent_scale)
next
  case (KeyPress k)
  with lo hi show ?thesis by (simp add: keyPressEvent_scale)
next
  case (SetMode m)
  with lo hi show ?thesis by (simp add: set_mode_def)
next
  case (LoadImage path)
  then show ?thesis by (simp add: load_image_def)
next
  case (HostWrite t)
  with lo hi show ?thesis by (simp add: host_write_def)
qed

lemma exec_scale:
  "1 / 10 \<le> scale s \<Longrightarrow> scale s \<le> 10 \<Longrightarrow>
     \<exists>s'. exec evs s = Inr s' \<and> 1 / 10 \<le> scale s' \<and> scale s' \<le> 10"
proof (induction evs arbitrary: s)
  case Nil
  then show ?case by simp
next
  case (Cons ev evs)
  from step_scale [OF Cons.prems, of ev] obtain s1
    where s1: "step ev s = Inr s1" "1 / 10 \<le> scale s1" "scale s1 \<le> 10" by blast
  from Cons.IH [OF s1(2,3)] s1(1) show ?case by simp
qed

text \<open>
  C3.  A wheel event handled in a state whose scale lies in [0.1, 10] returns a state
  whose scale lies in [0.1, 10], whatever the angle delta; and every sequence of events
  (the widget's own handlers and methods, and the host's writes to the widget) run from
  the initial state returns, without raising, a state whose scale lies in [0.1, 10].
\<close>

theorem scale_clamped_invariant:
  "(1 / 10 \<le> scale s \<and> scale s \<le> 10 \<longrightarrow>
      (\<exists>s'. wheelEvent e s = Inr s' \<and> 1 / 10 \<le> scale s' \<and> scale s' \<le> 10)) \<and>
   (\<exists>t. exec evs CanvasWidget_init = Inr t \<and> 1 / 10 \<le> scale t \<and> scale t \<le> 10)"
proof
  show "1 / 10 \<le> scale s \<and> scale s \<le> 10 \<longrightarrow>
      (\<exists>s'. wheelEvent e s = Inr s' \<and> 1 / 10 \<le> scale s' \<and> scale s' \<le> 10)"
    using wheelEvent_scale by blast
  have "1 / 10 \<le> scale CanvasWidget_init" "scale CanvasWidget_init \<le> 10"
    by (simp_all add: CanvasWidget_init_def)
  then show "\<exists>t. exec evs CanvasWidget_init = Inr t \<and> 1 / 10 \<le> scale t \<and> scale t \<le> 10"
    by (rule exec_scale)
qed

text \<open>
  From the initial scale 1, an angle delta of -6000 asks for scale -4, which is clamped
  to 0.1; a run that zooms out and then far in again ends within the bounds.
\<close>

theorem scale_clamped_invariant_witness:
  "1 / 10 \<le> scale CanvasWidget_init \<and> scale CanvasWidget_init \<le> 10 \<and>
   (\<exists>s'. wheelEvent \<lparr>angleDelta_y = - 6000, wheel_position = (100, 50)\<rparr> CanvasWidget_init
            = Inr s' \<and> scale s' = 1 / 10) \<and>
   (\<exists>t. exec [Wheel \<lparr>angleDelta_y = - 6000, wheel_position = (100, 50)\<rparr>,
              SetMode SELECT,
              Wheel \<lparr>angleDelta_y = 240000, wheel_position = (3, 4)\<rparr>] CanvasWidget_init
           = Inr t \<and> 1 / 10 \<le> scale t \<and> scale t \<le> 10)"
proof -
  let ?e = "\<lparr>angleDelta_y = - 6000, wheel_position = (100, 50)\<rparr>"
  let ?evs = "[Wheel ?e, SetMode SELECT, Wheel \<lparr>angleDelta_y = 240000, wheel_position = (3, 4)\<rparr>]"
  have bounds: "1 / 10 \<le> scale CanvasWidget_init \<and> scale CanvasWidget_init \<le> 10"
    by (simp add: CanvasWidget_init_def)
  from scale_clamped_invariant [of CanvasWidget_init ?e ?evs] bounds
  obtain s' where run: "wheelEvent ?e CanvasWidget_init = Inr s'"
    and reach: "\<exists>t. exec ?evs CanvasWidget_init = Inr t \<and> 1 / 10 \<le> scale t \<and> scale t \<le> 10"
    by blast
  have "scale s' = 1 / 10"
    using run by (auto simp: wheelEvent_def to_image_coords_def CanvasWidget_init_def Let_def)
  with bounds run reach show ?thesis
    by blast
qed

subsection \<open>C4: the two coordinate conversions are mutually inverse\<close>

text \<open>
  C4.  For a transform with positive scale, converting an image point to the widget and
  back gives the point again, and converting a widget point to the image (which then
  cannot fail) and back gives the point again.
\<close>

theorem coords_round_trip:
  "0 < scale s \<Longrightarrow>
     to_image_coords s (to_widget_coords s q) = Inr q \<and>
     (\<exists>q'. to_image_coords s p = Inr q' \<and> to_widget_coords s q' = p)"
  by (cases p; cases q) (simp add: to_image_coords_def to_widget_coords_def)

theorem coords_round_trip_witness:
  "0 < scale (CanvasWidget_init\<lparr>scale := 2, offset := (3, 4)\<rparr>) \<and>
   to_image_coords (CanvasWidget_init\<lparr>scale := 2, offset := (3, 4)\<rparr>)
     (to_widget_coords (CanvasWidget_init\<lparr>scale := 2, offset := (3, 4)\<rparr>) (10, 20)) =
   Inr (10, 20) \<and>
   to_widget_coords (CanvasWidget_init\<lparr>scale := 2, offset := (3, 4)\<rparr>) (10, 20) = (23, 44) \<and>
   (\<exists>q'. to_image_coords (CanvasWidget_init\<lparr>scale := 2, offset := (3, 4)\<rparr>) (23, 44) = Inr q' \<and>
         to_widget_coords (CanvasWidget_init\<lparr>scale := 2, offset := (3, 4)\<rparr>) q' = (23, 44))"
proof -
  let ?s = "CanvasWidget_init\<lparr>scale := 2, offset := (3, 4)\<rparr>"
  have pos: "0 < scale ?s"
    by simp
  have w: "to_widget_coords ?s (10, 20) = (23, 44)"
    by (simp add: to_widget_coords_def CanvasWidget_init_def)
  from coords_round_trip [OF pos, of "(10, 20)" "(23, 44)"] pos w show ?thesis
    by simp
qed

subsection \<open>C5: selection takes the first box in store order\<close>




subsection \<open>C6: what a Mark-mode release commits\<close>

text \<open>
  C6, as claimed, fails: the release does not test the rectangle.  A press at (10,10)
  and a release with no movement in between leave a box of zero width and zero height,
  (10,10,10,10), in the store.
\<close>

theorem degenerate_rect_committed:
  "exec [SetMode MARK, MousePress (left_at 10 10), MouseRelease (left_at 10 10)]
        CanvasWidget_init =
   Inr (CanvasWidget_init\<lparr>mode := MARK, drag_start := (10, 10), boxes := [0],
          heap := (heap CanvasWidget_init)
                    (0 := \<lparr>class_id = 0, x1 = 10, y1 = 10, x2 = 10, y2 = 10,
                            confidence = None\<rparr>),
          next_ref := 1\<rparr>)"
  by (simp add: handler_defs qrect_defs CanvasWidget_init_def Let_def)

text \<open>
  C6, amended.  Every primary release in Mark mode that ends a draw (the drag flag is set
  and a rectangle is in progress) appends one new box to the store, degenerate or not.
  Its corners are those of the normalized rectangle: the smaller of the two x values and
  of the two y values first, the larger ones second.  The rectangle in progress and the
  drag flag are cleared.
\<close>

theorem mark_release_always_commits:
  assumes "mode s = MARK" and "dragging s" and "current_rect s = Some r"
    and "ev_button e = LeftButton"
  shows "boxes (mouseReleaseEvent e s) = boxes s @ [next_ref s] \<and>
         x1 (heap (mouseReleaseEvent e s) (next_ref s)) = min (rect_x r) (rect_x r + rect_w r) \<and>
         y1 (heap (mouseReleaseEvent e s) (next_ref s)) = min (rect_y r) (rect_y r + rect_h r) \<and>
         x2 (heap (mouseReleaseEvent e s) (next_ref s)) = max (rect_x r) (rect_x r + rect_w r) \<and>
         y2 (heap (mouseReleaseEvent e s) (next_ref s)) = max (rect_y r) (rect_y r + rect_h r) \<and>
         current_rect (mouseReleaseEvent e s) = None \<and> \<not> dragging (mouseReleaseEvent e s)"
  using assms
  by (simp add: mouseReleaseEvent_def commit_rect_def qrect_defs Let_def min_def max_def)

theorem mark_release_always_commits_witness:
  "exec [SetMode MARK, MousePress (left_at 10 10)] CanvasWidget_init =
     Inr (drawing_state 10 10 10 10) \<and>
   mode (drawing_state 10 10 10 10) = MARK \<and> dragging (drawing_state 10 10 10 10) \<and>
   boxes (mouseReleaseEvent (left_at 10 10) (drawing_state 10 10 10 10)) = [0] \<and>
   x1 (heap (mouseReleaseEvent (left_at 10 10) (drawing_state 10 10 10 10)) 0) = 10 \<and>
   y1 (heap (mouseReleaseEvent (left_at 10 10) (drawing_state 10 10 10 10)) 0) = 10 \<and>
   x2 (heap (mouseReleaseEvent (left_at 10 10) (drawing_state 10 10 10 10)) 0) = 10 \<and>
   y2 (heap (mouseReleaseEvent (left_at 10 10) (drawing_state 10 10 10 10)) 0) = 10"
proof -
  let ?s = "drawing_state 10 10 10 10"
  have reach: "exec [SetMode MARK, MousePress (left_at 10 10)] CanvasWidget_init = Inr ?s"
    by (simp add: handler_defs qrect_defs drawing_state_def CanvasWidget_init_def)
  have m: "mode ?s = MARK" and d: "dragging ?s"
    and r: "current_rect ?s = Some \<lparr>rect_x = 10, rect_y = 10, rect_w = 0, rect_h = 0\<rparr>"
    and b: "ev_button (left_at 10 10) = LeftButton"
    by (simp_all add: drawing_state_def left_at_def)
  have st: "boxes ?s = []" "next_ref ?s = 0"
    by (simp_all add: drawing_state_def CanvasWidget_init_def)
  from mark_release_always_commits [OF m d r b] reach m d st show ?thesis
    by simp
qed

subsection \<open>C7: switching the mode in the middle of a draw\<close>














subsection \<open>C8: the change notification\<close>

text \<open>
  The three Select-mode mutations do signal: a resize step, a translation step and the
  deletion of the selected box each emit \<open>boxes_changed\<close> once.
\<close>

lemma select_mutations_emit:
  "mode s = SELECT \<Longrightarrow> selected_box s = Some sel \<Longrightarrow> scale s \<noteq> 0 \<Longrightarrow>
   (resizing s \<and> truthy (resize_handle s)) \<or> dragging s \<Longrightarrow>
     \<exists>s'. mouseMoveEvent e s = Inr s' \<and> boxes_changed s' = Suc (boxes_changed s)"
  "selected_box s = Some sel \<Longrightarrow>
     boxes_changed (keyPressEvent Key_Delete s) = Suc (boxes_changed s)"
  by (auto simp: mouseMoveEvent_def keyPressEvent_def to_image_coords_def Let_def)

text \<open>
  C8.  The commit on a Mark-mode release does not signal.  Before the release of the draw
  from (10,10) to (50,40) the store is empty and nothing has been emitted; after it the
  store holds the new box, and the count of emitted \<open>boxes_changed\<close> is still 0.
\<close>

theorem mark_commit_emits_nothing:
  "map_sum id boxes
     (exec [SetMode MARK, MousePress (left_at 10 10), MouseMove (left_at 50 40)]
        CanvasWidget_init) = Inr [] \<and>
   map_sum id boxes_changed
     (exec [SetMode MARK, MousePress (left_at 10 10), MouseMove (left_at 50 40)]
        CanvasWidget_init) = Inr 0 \<and>
   map_sum id boxes
     (exec [SetMode MARK, MousePress (left_at 10 10), MouseMove (left_at 50 40),
            MouseRelease (left_at 50 40)]
        CanvasWidget_init) = Inr [0] \<and>
   map_sum id boxes_changed
     (exec [SetMode MARK, MousePress (left_at 10 10), MouseMove (left_at 50 40),
            MouseRelease (left_at 50 40)]
        CanvasWidget_init) = Inr 0"
  by (simp add: handler_defs qrect_defs CanvasWidget_init_def Let_def)

subsection \<open>C9: the batch worker on a folder without images\<close>

text \<open>
  C9.  When none of the three patterns \<open>*.jpg\<close>, \<open>*.png\<close>, \<open>*.jpeg\<close> matches a
  file of the image folder, the worker's whole effect is one error notification: the
  model is not loaded, no image is processed, no progress and no success is signalled.
\<close>

theorem run_no_images:
  "glob env ''*.jpg'' = [] \<Longrightarrow> glob env ''*.png'' = [] \<Longrightarrow> glob env ''*.jpeg'' = [] \<Longrightarrow>
     run env = [Emit (Error ''No images found in the selected folder.'')]"
  by (simp add: run_def)

theorem run_no_images_witness:
  "glob \<lparr>glob = (\<lambda>pat. if pat = ''*.txt'' then [''notes.txt''] else []),
         load_model_raises = None, pil_import_raises = None,
         image_raises = (\<lambda>img. False),
         float_pct = (\<lambda>i n. 0)\<rparr> ''*.jpg'' = [] \<and>
   run \<lparr>glob = (\<lambda>pat. if pat = ''*.txt'' then [''notes.txt''] else []),
        load_model_raises = None, pil_import_raises = None,
        image_raises = (\<lambda>img. False),
         float_pct = (\<lambda>i n. 0)\<rparr> =
   [Emit (Error ''No images found in the selected folder.'')]"
proof -
  let ?env = "\<lparr>glob = (\<lambda>pat. if pat = ''*.txt'' then [''notes.txt''] else []),
                load_model_raises = None, pil_import_raises = None,
                image_raises = (\<lambda>img. False),
         float_pct = (\<lambda>i n. 0)\<rparr>"
  have j: "glob ?env ''*.jpg'' = []" and p: "glob ?env ''*.png'' = []"
    and g: "glob ?env ''*.jpeg'' = []"
    by simp_all
  from run_no_images [OF j p g] j show ?thesis
    by simp
qed

subsection \<open>C10: what load\_image changes\<close>

text \<open>
  C10.  \<open>load_image\<close> sets the scale to 1 and the offset to (0,0); the box store (the
  list and the boxes it refers to), the selection, the mode, the class for new boxes and
  all drag, draw, pan and resize state are as before, and nothing is signalled.
\<close>

theorem load_image_frame:
  "scale (load_image path s) = 1 \<and> offset (load_image path s) = (0, 0) \<and>
   boxes (load_image path s) = boxes s \<and> heap (load_image path s) = heap s \<and>
   next_ref (load_image path s) = next_ref s \<and>
   selected_box (load_image path s) = selected_box s \<and>
   mode (load_image path s) = mode s \<and>
   new_box_class (load_image path s) = new_box_class s \<and>
   dragging (load_image path s) = dragging s \<and>
   drag_start (load_image path s) = drag_start s \<and>
   current_rect (load_image path s) = current_rect s \<and>
   panning (load_image path s) = panning s \<and>
   pan_start (load_image path s) = pan_start s \<and>
   resizing (load_image path s) = resizing s \<and>
   resize_handle (load_image path s) = resize_handle s \<and>
   handle_size (load_image path s) = handle_size s \<and>
   cursor (load_image path s) = cursor s \<and>
   boxes_changed (load_image path s) = boxes_changed s"
  by (simp add: load_image_def)

end
